theory Spec2Isabelle
  imports Complex_Main
begin

section \<open>MetricsPlugin: counters and the single start slot\<close>

text \<open>
  The plugin object of \<^verbatim>\<open>arxiv_quantum_agent.py\<close> (class \<^verbatim>\<open>MetricsPlugin\<close>) is a
  record of its six instance attributes. Clock readings (\<^verbatim>\<open>datetime.now()\<close>) are seconds
  as reals and are handed to the callbacks as an argument; \<^verbatim>\<open>start_time\<close> is
  \<^verbatim>\<open>None\<close> or a clock reading. Every \<^verbatim>\<open>datetime\<close> object is truthy, so the test
  \<^verbatim>\<open>if self.start_time:\<close> is the test for \<^verbatim>\<open>Some\<close>. Logging is not modelled.
\<close>

record metrics_plugin =
  agent_calls :: nat
  papers_processed :: nat
  total_processing_time :: real
  successful_operations :: nat
  failed_operations :: nat
  start_time :: "real option"

definition init_plugin :: metrics_plugin where
  "init_plugin =
     \<lparr>agent_calls = 0, papers_processed = 0, total_processing_time = 0,
      successful_operations = 0, failed_operations = 0, start_time = None\<rparr>"

definition before_agent_callback :: "real \<Rightarrow> metrics_plugin \<Rightarrow> metrics_plugin" where
  "before_agent_callback now s =
     s\<lparr>agent_calls := agent_calls s + 1, start_time := Some now\<rparr>"

definition after_agent_callback :: "real \<Rightarrow> metrics_plugin \<Rightarrow> metrics_plugin" where
  "after_agent_callback now s =
     (case start_time s of
        None \<Rightarrow> s
      | Some t0 \<Rightarrow>
          (let processing_time = now - t0
           in s\<lparr>total_processing_time := total_processing_time s + processing_time,
                successful_operations := successful_operations s + 1\<rparr>))"

text \<open>
  One call of a callback, with the clock reading the call takes, and a run of calls on a
  freshly constructed plugin.
\<close>

datatype event = Before real | After real

fun apply_event :: "metrics_plugin \<Rightarrow> event \<Rightarrow> metrics_plugin" where
  "apply_event s (Before now) = before_agent_callback now s"
| "apply_event s (After now) = after_agent_callback now s"

definition run :: "event list \<Rightarrow> metrics_plugin" where
  "run es = foldl apply_event init_plugin es"

text \<open>
  Measures of a run, for stating what the counters hold: the number of
  \<^verbatim>\<open>before_agent_callback\<close> calls, the number of \<^verbatim>\<open>after_agent_callback\<close> calls, and
  the number of \<^verbatim>\<open>after_agent_callback\<close> calls made after the first
  \<^verbatim>\<open>before_agent_callback\<close>.
\<close>

fun count_starts :: "event list \<Rightarrow> nat" where
  "count_starts [] = 0"
| "count_starts (Before t # es) = Suc (count_starts es)"
| "count_starts (After t # es) = count_starts es"

fun count_ends :: "event list \<Rightarrow> nat" where
  "count_ends [] = 0"
| "count_ends (Before t # es) = count_ends es"
| "count_ends (After t # es) = Suc (count_ends es)"

fun ends_since_start :: "event list \<Rightarrow> nat" where
  "ends_since_start [] = 0"
| "ends_since_start (After t # es) = ends_since_start es"
| "ends_since_start (Before t # es) = count_ends es"

text \<open>
  \<^verbatim>\<open>round(x, 2)\<close>: to the nearest multiple of 1/100, a tie going to the even
  neighbour. The numbers of the summary are reals here.
\<close>

definition py_round2 :: "real \<Rightarrow> real" where
  "py_round2 x =
     (let y = x * 100; f = \<lfloor>y\<rfloor>; d = y - of_int f
      in of_int (if d < 1 / 2 then f
                 else if 1 / 2 < d then f + 1
                 else if even f then f else f + 1) / 100)"

definition get_metrics_summary :: "metrics_plugin \<Rightarrow> (string \<rightharpoonup> real)" where
  "get_metrics_summary s =
     (let success_rate =
            (if successful_operations s + failed_operations s > 0
             then real (successful_operations s)
                    / real (successful_operations s + failed_operations s) * 100
             else 0);
          avg_processing_time =
            (if successful_operations s > 0
             then total_processing_time s / real (successful_operations s)
             else 0)
      in [''total_agent_calls'' \<mapsto> real (agent_calls s),
          ''papers_processed'' \<mapsto> real (papers_processed s),
          ''total_processing_time_seconds'' \<mapsto> py_round2 (total_processing_time s),
          ''average_processing_time_seconds'' \<mapsto> py_round2 avg_processing_time,
          ''successful_operations'' \<mapsto> real (successful_operations s),
          ''failed_operations'' \<mapsto> real (failed_operations s),
          ''success_rate_percent'' \<mapsto> py_round2 success_rate])"

section \<open>Relevance scoring\<close>

text \<open>
  A paper is a dictionary from field names to strings; reading a field that is absent
  raises \<^verbatim>\<open>KeyError\<close>, which is a value of the result here. A character is a code point
  below 256, so the texts of the model are the Latin-1 ones. Scores are reals: the source
  adds the integers 20, 10 and 15 to 0.0, and floating point is exact on such sums.
\<close>

datatype py_error = KeyError string

type_synonym paper = "string \<rightharpoonup> string"

text \<open>
  \<^verbatim>\<open>str.lower\<close> on one code point below 256: the capital letters A to Z and the capital
  letters from 192 to 222 other than the multiplication sign 215 move up by 32, which
  sets the bit of value 32; every other code point stays.
\<close>

fun lower_char :: "char \<Rightarrow> char" where
  "lower_char (Char b0 b1 b2 b3 b4 b5 b6 b7) =
     (let n = (of_char (Char b0 b1 b2 b3 b4 b5 b6 b7) :: nat)
      in if (65 \<le> n \<and> n \<le> 90) \<or> (192 \<le> n \<and> n \<le> 222 \<and> n \<noteq> 215)
         then Char b0 b1 b2 b3 b4 True b6 b7
         else Char b0 b1 b2 b3 b4 b5 b6 b7)"

definition py_lower :: "string \<Rightarrow> string" where
  "py_lower s = map lower_char s"

text \<open>
  \<^verbatim>\<open>needle in text\<close>: the needle starts at some position of the text.
\<close>

fun starts_with :: "string \<Rightarrow> string \<Rightarrow> bool" where
  "starts_with text [] = True"
| "starts_with [] (p # ps) = False"
| "starts_with (c # cs) (p # ps) = (c = p \<and> starts_with cs ps)"

fun py_in :: "string \<Rightarrow> string \<Rightarrow> bool" where
  "py_in needle [] = (needle = [])"
| "py_in needle (c # cs) = (starts_with (c # cs) needle \<or> py_in needle cs)"

text \<open>
  The loop over \<^verbatim>\<open>user_keywords\<close>, with the running score.
\<close>

fun keyword_loop :: "string \<Rightarrow> string \<Rightarrow> string list \<Rightarrow> real \<Rightarrow> real" where
  "keyword_loop title_lower abstract_lower [] score = score"
| "keyword_loop title_lower abstract_lower (keyword # rest) score =
     (let keyword_lower = py_lower keyword;
          score1 = (if py_in keyword_lower title_lower then score + 20 else score);
          score2 = (if py_in keyword_lower abstract_lower then score1 + 10 else score1)
      in keyword_loop title_lower abstract_lower rest score2)"

text \<open>
  The \<^verbatim>\<open>try\<close> block. Its outcome depends on the clock and on the date parser of the
  standard library, which are the parameter \<^verbatim>\<open>days_since\<close>: the age in days of a
  publication string at the time of the call, or \<^verbatim>\<open>None\<close> when parsing or the
  subtraction raises. A missing \<^verbatim>\<open>published\<close> field raises inside the block as well, and
  the bare \<^verbatim>\<open>except\<close> swallows either.
\<close>

definition recency_bonus :: "(string \<Rightarrow> int option) \<Rightarrow> paper \<Rightarrow> real \<Rightarrow> real" where
  "recency_bonus days_since p score =
     (case p ''published'' of
        None \<Rightarrow> score
      | Some published \<Rightarrow>
          (case days_since published of
             None \<Rightarrow> score
           | Some days_old \<Rightarrow>
               if days_old < 7 then score + 15
               else if days_old < 30 then score + 10
               else score))"

definition calculate_relevance_score ::
    "(string \<Rightarrow> int option) \<Rightarrow> paper \<Rightarrow> string list \<Rightarrow> py_error + real" where
  "calculate_relevance_score days_since p user_keywords =
     (case p ''title'' of
        None \<Rightarrow> Inl (KeyError ''title'')
      | Some title \<Rightarrow>
          (case p ''abstract'' of
             None \<Rightarrow> Inl (KeyError ''abstract'')
           | Some abstract \<Rightarrow>
               Inr (min (recency_bonus days_since p
                           (keyword_loop (py_lower title) (py_lower abstract) user_keywords 0))
                        100)))"

section \<open>Equation extraction\<close>

text \<open>
  Each of the four patterns is an opening delimiter, the lazy group \<^verbatim>\<open>(.*?)\<close> under
  \<^verbatim>\<open>re.DOTALL\<close>, and a closing delimiter. \<^verbatim>\<open>re.findall\<close> on such a pattern finds the
  first opening delimiter, then the first closing delimiter after it, reports the text
  in between, and goes on after the closing delimiter; when an opening delimiter has no
  closing delimiter after it, no later one has either, and the scan ends. The opening
  delimiter of each pattern is not empty; for an empty one, which the source does not
  have, the model reports no match.
  \<^verbatim>\<open>find_sub\<close> splits a text at the first occurrence of a needle.
\<close>

fun find_sub :: "string \<Rightarrow> string \<Rightarrow> (string \<times> string) option" where
  "find_sub needle [] = (if needle = [] then Some ([], []) else None)"
| "find_sub needle (c # cs) =
     (if starts_with (c # cs) needle then Some ([], drop (length needle) (c # cs))
      else (case find_sub needle cs of
              None \<Rightarrow> None
            | Some (before, after) \<Rightarrow> Some (c # before, after)))"

text \<open>
  The text splits around the needle that was found; the scan below terminates by it.
\<close>

lemma starts_with_drop: "starts_with s needle \<Longrightarrow> s = needle @ drop (length needle) s"
  by (induction s needle rule: starts_with.induct) simp_all

lemma find_sub_split:
  "find_sub needle s = Some (before, after) \<Longrightarrow> s = before @ needle @ after"
proof (induction s arbitrary: before)
  case Nil
  then show ?case by (simp split: if_splits)
next
  case (Cons c cs)
  show ?case
  proof (cases "starts_with (c # cs) needle")
    case True
    then show ?thesis using Cons.prems starts_with_drop [OF True] by simp
  next
    case False
    with Cons.prems obtain b where f: "find_sub needle cs = Some (b, after)" and b: "before = c # b"
      by (auto split: option.splits)
    from Cons.IH [OF f] b show ?thesis by simp
  qed
qed

lemma find_sub_length:
  "find_sub needle text = Some (before, after) \<Longrightarrow>
     length text = length before + length needle + length after"
  by (drule find_sub_split) simp

function findall_delimited :: "string \<Rightarrow> string \<Rightarrow> string \<Rightarrow> string list" where
  "findall_delimited opn cls text =
     (if opn = [] then []
      else (case find_sub opn text of
              None \<Rightarrow> []
            | Some (skipped, rest) \<Rightarrow>
                (case find_sub cls rest of
                   None \<Rightarrow> []
                 | Some (grp, rest') \<Rightarrow> grp # findall_delimited opn cls rest')))"
  by pat_completeness auto
termination
  by (relation "measure (\<lambda>(opn, cls, s). length s)") (auto dest!: find_sub_length)

text \<open>
  \<^verbatim>\<open>str.strip\<close>: the white space among the code points below 256.
\<close>

definition is_space :: "char \<Rightarrow> bool" where
  "is_space c = ((of_char c :: nat) \<in> {9, 10, 11, 12, 13, 28, 29, 30, 31, 32, 133, 160})"

definition py_strip :: "string \<Rightarrow> string" where
  "py_strip s = rev (dropWhile is_space (rev (dropWhile is_space s)))"

text \<open>
  The list \<^verbatim>\<open>patterns\<close> in its order of declaration; 0x5C is the backslash.
\<close>

definition patterns :: "(string \<times> string) list" where
  "patterns =
     [(''$$'', ''$$''),
      (''$'', ''$''),
      (CHR 0x5C # ''begin{equation}'', CHR 0x5C # ''end{equation}''),
      (CHR 0x5C # ''begin{align}'', CHR 0x5C # ''end{align}'')]"

text \<open>
  One round of the first loop: the matches of a pattern, stripped, the empty ones
  dropped. Then the loop itself, and the second loop with its set \<^verbatim>\<open>seen\<close>.
\<close>

definition stripped_matches :: "string \<times> string \<Rightarrow> string \<Rightarrow> string list" where
  "stripped_matches pattern text =
     (let matches = findall_delimited (fst pattern) (snd pattern) text
      in map py_strip (filter (\<lambda>m. py_strip m \<noteq> []) matches))"

fun collect :: "(string \<times> string) list \<Rightarrow> string \<Rightarrow> string list \<Rightarrow> string list" where
  "collect [] text equations = equations"
| "collect (pattern # rest) text equations =
     collect rest text (equations @ stripped_matches pattern text)"

fun unique_loop :: "string list \<Rightarrow> string set \<Rightarrow> string list \<Rightarrow> string list" where
  "unique_loop [] seen unique_equations = unique_equations"
| "unique_loop (eq # eqs) seen unique_equations =
     (if eq \<notin> seen then unique_loop eqs (insert eq seen) (unique_equations @ [eq])
      else unique_loop eqs seen unique_equations)"

definition extract_latex_equations :: "string \<Rightarrow> string list" where
  "extract_latex_equations text = unique_loop (collect patterns text []) {} []"

text \<open>
  The specification of the second loop in the words of the design: duplicate values are
  removed and the first occurrence of each value keeps its place.
\<close>

fun dedup_first_seen :: "'a list \<Rightarrow> 'a list" where
  "dedup_first_seen [] = []"
| "dedup_first_seen (x # xs) = x # dedup_first_seen (filter (\<lambda>y. y \<noteq> x) xs)"

section \<open>Performance rating\<close>

text \<open>
  \<^verbatim>\<open>AgentEvaluator.evaluate_performance\<close>: the metrics are a dictionary read with
  \<^verbatim>\<open>dict.get\<close> and a default; the ratings are a dictionary built by two assignments.
\<close>

definition evaluate_performance :: "(string \<rightharpoonup> real) \<Rightarrow> (string \<rightharpoonup> string)" where
  "evaluate_performance metrics =
     (let ratings = Map.empty;
          avg_time = (case metrics ''average_processing_time_seconds'' of
                        None \<Rightarrow> 999 | Some v \<Rightarrow> v);
          ratings = ratings(''speed'' \<mapsto>
                      (if avg_time < 5 then ''Excellent''
                       else if avg_time < 15 then ''Good''
                       else if avg_time < 30 then ''Acceptable''
                       else ''Needs Improvement''));
          success_rate = (case metrics ''success_rate_percent'' of
                            None \<Rightarrow> 0 | Some v \<Rightarrow> v);
          ratings = ratings(''reliability'' \<mapsto>
                      (if success_rate \<ge> 95 then ''Excellent''
                       else if success_rate \<ge> 85 then ''Good''
                       else if success_rate \<ge> 70 then ''Acceptable''
                       else ''Needs Improvement''))
      in ratings)"

declare findall_delimited.simps [simp del]

section \<open>Properties of the aggregator\<close>

subsection \<open>Helper facts\<close>

lemma failed_before [simp]:
  "failed_operations (before_agent_callback now s) = failed_operations s"
  by (simp add: before_agent_callback_def)

lemma failed_after [simp]:
  "failed_operations (after_agent_callback now s) = failed_operations s"
  by (simp add: after_agent_callback_def Let_def split: option.split)

lemma failed_apply_event [simp]:
  "failed_operations (apply_event s e) = failed_operations s"
  by (cases e) simp_all

lemma failed_foldl [simp]:
  "failed_operations (foldl apply_event s es) = failed_operations s"
  by (induction es arbitrary: s) simp_all

lemma py_round2_of_int: "py_round2 (of_int n) = of_int n"
proof -
  have "of_int n * (100::real) = of_int (n * 100)" by simp
  then have fl: "\<lfloor>of_int n * (100::real)\<rfloor> = n * 100"
    by (metis floor_of_int)
  show ?thesis
    unfolding py_round2_def Let_def fl by simp
qed

lemma failed_run: "failed_operations (run es) = 0"
  by (simp add: run_def init_plugin_def)

lemma success_rate_100:
  assumes "failed_operations s = 0" and "0 < successful_operations s"
  shows "get_metrics_summary s ''success_rate_percent'' = Some 100"
proof -
  have "real (successful_operations s) / real (successful_operations s) * 100 = 100"
    using assms(2) by simp
  moreover have "py_round2 100 = 100"
    using py_round2_of_int [of 100] by simp
  ultimately show ?thesis
    using assms by (simp add: get_metrics_summary_def Let_def)
qed

lemma calls_foldl:
  "agent_calls (foldl apply_event s es) = agent_calls s + count_starts es"
proof (induction es arbitrary: s)
  case Nil
  show ?case by simp
next
  case (Cons e es)
  show ?case
  proof (cases e)
    case (Before t)
    then show ?thesis
      using Cons.IH [of "before_agent_callback t s"] by (simp add: before_agent_callback_def)
  next
    case (After t)
    then show ?thesis
      using Cons.IH [of "after_agent_callback t s"]
      by (simp add: after_agent_callback_def Let_def split: option.split)
  qed
qed

lemma successes_foldl_started:
  "start_time s = Some t0 \<Longrightarrow>
     successful_operations (foldl apply_event s es) = successful_operations s + count_ends es"
proof (induction es arbitrary: s t0)
  case Nil
  show ?case by simp
next
  case (Cons e es)
  show ?case
  proof (cases e)
    case (Before t)
    have "start_time (before_agent_callback t s) = Some t"
      by (simp add: before_agent_callback_def)
    from Cons.IH [OF this] Before show ?thesis
      by (simp add: before_agent_callback_def)
  next
    case (After t)
    have "start_time (after_agent_callback t s) = Some t0"
      using Cons.prems by (simp add: after_agent_callback_def Let_def)
    from Cons.IH [OF this] After Cons.prems show ?thesis
      by (simp add: after_agent_callback_def Let_def)
  qed
qed

lemma successes_foldl_fresh:
  "start_time s = None \<Longrightarrow>
     successful_operations (foldl apply_event s es)
       = successful_operations s + ends_since_start es"
proof (induction es)
  case Nil
  show ?case by simp
next
  case (Cons e es)
  show ?case
  proof (cases e)
    case (Before t)
    have "start_time (before_agent_callback t s) = Some t"
      by (simp add: before_agent_callback_def)
    from successes_foldl_started [OF this, of es] Before show ?thesis
      by (simp add: before_agent_callback_def)
  next
    case (After t)
    have "after_agent_callback t s = s"
      using Cons.prems by (simp add: after_agent_callback_def)
    with Cons.IH [OF Cons.prems] After show ?thesis by simp
  qed
qed

lemma ends_since_start_le: "ends_since_start es \<le> count_ends es"
  by (induction es rule: ends_since_start.induct) simp_all

lemma run_counts:
  "successful_operations (run es) = ends_since_start es"
  "agent_calls (run es) = count_starts es"
  using successes_foldl_fresh [of init_plugin es] calls_foldl [of init_plugin es]
  by (simp_all add: run_def init_plugin_def)

subsection \<open>The claims\<close>

text \<open>
  C1 (as the code has it). \<^verbatim>\<open>after_agent_callback\<close> on a plugin whose start
  timestamp is set adds the elapsed time since that timestamp to
  \<^verbatim>\<open>total_processing_time\<close> and increments \<^verbatim>\<open>successful_operations\<close>; it changes
  no other field, so the start timestamp stays set. A second call with no
  \<^verbatim>\<open>before_agent_callback\<close> in between therefore counts again: one more successful
  operation, and the elapsed time measured from the same start added once more.
\<close>

theorem after_with_start_accumulates:
  assumes "start_time s = Some t0"
  shows "after_agent_callback now s =
           s\<lparr>total_processing_time := total_processing_time s + (now - t0),
             successful_operations := successful_operations s + 1\<rparr>
         \<and> start_time (after_agent_callback now s) = Some t0
         \<and> successful_operations (after_agent_callback now' (after_agent_callback now s))
             = successful_operations s + 2
         \<and> total_processing_time (after_agent_callback now' (after_agent_callback now s))
             = total_processing_time s + (now - t0) + (now' - t0)"
  using assms by (simp add: after_agent_callback_def Let_def)

theorem after_with_start_accumulates_witness:
  "start_time (before_agent_callback 0 init_plugin) = Some 0
   \<and> start_time (after_agent_callback 2 (before_agent_callback 0 init_plugin)) = Some 0
   \<and> successful_operations
        (after_agent_callback 5 (after_agent_callback 2 (before_agent_callback 0 init_plugin))) = 2
   \<and> total_processing_time
        (after_agent_callback 5 (after_agent_callback 2 (before_agent_callback 0 init_plugin))) = 7"
proof -
  have h: "start_time (before_agent_callback 0 init_plugin) = Some 0"
    by (simp add: before_agent_callback_def)
  from after_with_start_accumulates [OF h, of 2 5] h show ?thesis
    by (simp add: before_agent_callback_def after_agent_callback_def init_plugin_def Let_def)
qed

text \<open>
  C1 as stated fails. The timestamp is not cleared: after a start at 0 and an end at 2
  it is still set, and a second end at 5 changes both the operation count and the
  accumulated time.
\<close>

theorem after_clears_start_counterexample:
  "start_time (after_agent_callback 2 (before_agent_callback 0 init_plugin)) \<noteq> None
   \<and> successful_operations
        (after_agent_callback 5 (after_agent_callback 2 (before_agent_callback 0 init_plugin)))
       \<noteq> successful_operations
            (after_agent_callback 2 (before_agent_callback 0 init_plugin))
   \<and> total_processing_time
        (after_agent_callback 5 (after_agent_callback 2 (before_agent_callback 0 init_plugin)))
       \<noteq> total_processing_time
            (after_agent_callback 2 (before_agent_callback 0 init_plugin))"
  by (simp add: after_agent_callback_def before_agent_callback_def init_plugin_def Let_def)

text \<open>
  C2 (as the code has it). After every sequence of calls on a fresh plugin,
  \<^verbatim>\<open>successful_operations\<close> is the number of \<^verbatim>\<open>after_agent_callback\<close> calls made
  after the first \<^verbatim>\<open>before_agent_callback\<close>, \<^verbatim>\<open>failed_operations\<close> is 0 and
  \<^verbatim>\<open>agent_calls\<close> is the number of \<^verbatim>\<open>before_agent_callback\<close> calls. So the state
  reached satisfies \<^verbatim>\<open>successful_operations + failed_operations <= agent_calls + 1\<close>
  exactly when the ends made since the first start are at most the starts plus one; in
  particular it does whenever the sequence has at most one more
  \<^verbatim>\<open>after_agent_callback\<close> than \<^verbatim>\<open>before_agent_callback\<close> calls. Every reachable
  state is the state after some sequence, so this covers each of them.
\<close>

theorem ops_bound_by_history:
  "successful_operations (run es) = ends_since_start es
   \<and> failed_operations (run es) = 0
   \<and> agent_calls (run es) = count_starts es
   \<and> ((successful_operations (run es) + failed_operations (run es) \<le> agent_calls (run es) + 1)
        = (ends_since_start es \<le> count_starts es + 1))
   \<and> (count_ends es \<le> count_starts es + 1 \<longrightarrow>
        successful_operations (run es) + failed_operations (run es) \<le> agent_calls (run es) + 1)"
proof -
  have f: "failed_operations (run es) = 0" by (rule failed_run)
  have "count_ends es \<le> count_starts es + 1 \<Longrightarrow> ends_since_start es \<le> count_starts es + 1"
    using ends_since_start_le [of es] by simp
  then show ?thesis by (simp add: run_counts f)
qed

theorem ops_bound_by_history_witness:
  "count_ends [Before 0, Before 1, After 2, After 3, After 4]
     \<le> count_starts [Before 0, Before 1, After 2, After 3, After 4] + 1
   \<and> successful_operations (run [Before 0, Before 1, After 2, After 3, After 4]) = 3
   \<and> agent_calls (run [Before 0, Before 1, After 2, After 3, After 4]) = 2
   \<and> successful_operations (run [Before 0, Before 1, After 2, After 3, After 4])
       + failed_operations (run [Before 0, Before 1, After 2, After 3, After 4])
     \<le> agent_calls (run [Before 0, Before 1, After 2, After 3, After 4]) + 1"
proof -
  have h: "count_ends [Before 0, Before 1, After 2, After 3, After 4]
             \<le> count_starts [Before 0, Before 1, After 2, After 3, After 4] + 1"
    by simp
  have v: "ends_since_start [Before 0, Before 1, After 2, After 3, After 4] = 3"
    "count_starts [Before 0, Before 1, After 2, After 3, After 4] = 2"
    by simp_all
  from ops_bound_by_history [of "[Before 0, Before 1, After 2, After 3, After 4]"] h v
  show ?thesis by simp
qed

text \<open>
  C2 as stated fails. The bound does not hold for every sequence: one start followed by
  three ends gives three successful operations for one agent call.
\<close>

theorem ops_bound_counterexample:
  "\<not> (\<forall>es. successful_operations (run es) + failed_operations (run es)
              \<le> agent_calls (run es) + 1)"
proof
  assume a: "\<forall>es. successful_operations (run es) + failed_operations (run es)
              \<le> agent_calls (run es) + 1"
  have "successful_operations (run [Before 0, After 1, After 2, After 3]) = 3"
    and "failed_operations (run [Before 0, After 1, After 2, After 3]) = 0"
    and "agent_calls (run [Before 0, After 1, After 2, After 3]) = 1"
    by (simp_all add: run_def after_agent_callback_def before_agent_callback_def
          init_plugin_def Let_def)
  with a [rule_format, of "[Before 0, After 1, After 2, After 3]"] show False by simp
qed

text \<open>
  C3. Neither callback changes \<^verbatim>\<open>failed_operations\<close>, so it is 0 after every run on
  a fresh plugin; and whenever such a run has completed an operation
  (\<^verbatim>\<open>successful_operations > 0\<close>), the summary reports
  \<^verbatim>\<open>success_rate_percent\<close> as 100.
\<close>

theorem failed_never_incremented:
  "failed_operations (before_agent_callback now s) = failed_operations s
   \<and> failed_operations (after_agent_callback now s) = failed_operations s
   \<and> failed_operations (run es) = 0
   \<and> (0 < successful_operations (run es) \<longrightarrow>
        get_metrics_summary (run es) ''success_rate_percent'' = Some 100)"
  using success_rate_100 [OF failed_run] by (simp add: failed_run)

theorem failed_never_incremented_witness:
  "0 < successful_operations (run [Before 0, After 2])
   \<and> failed_operations (run [Before 0, After 2]) = 0
   \<and> get_metrics_summary (run [Before 0, After 2]) ''success_rate_percent'' = Some 100
   \<and> get_metrics_summary (run [Before 0, After 2]) ''average_processing_time_seconds''
       = Some 2"
proof -
  have r: "run [Before 0, After 2] =
             \<lparr>agent_calls = 1, papers_processed = 0, total_processing_time = 2,
              successful_operations = 1, failed_operations = 0, start_time = Some 0\<rparr>"
    by (simp add: run_def after_agent_callback_def before_agent_callback_def
          init_plugin_def Let_def)
  have h: "0 < successful_operations (run [Before 0, After 2])"
    unfolding r by simp
  have a: "get_metrics_summary (run [Before 0, After 2]) ''average_processing_time_seconds''
             = Some 2"
    unfolding r using py_round2_of_int [of 2] by (simp add: get_metrics_summary_def Let_def)
  from failed_never_incremented [of _ _ "[Before 0, After 2]"] h a show ?thesis by blast
qed

text \<open>
  C7. Calling \<^verbatim>\<open>after_agent_callback\<close> on a plugin with no pending start timestamp
  changes nothing: the call returns normally and the whole state, hence each of the six
  fields, is the one before the call.
\<close>

theorem after_without_start_noop:
  assumes "start_time s = None"
  shows "after_agent_callback now s = s"
  using assms by (simp add: after_agent_callback_def)

theorem after_without_start_noop_witness:
  "start_time init_plugin = None \<and> after_agent_callback 7 init_plugin = init_plugin"
proof -
  have h: "start_time init_plugin = None" by (simp add: init_plugin_def)
  from after_without_start_noop [OF h, of 7] h show ?thesis by simp
qed

section \<open>Properties of the relevance score\<close>

subsection \<open>Helper facts\<close>

lemma keyword_loop_ge: "score \<le> keyword_loop tlow alow ks score"
proof (induction ks arbitrary: score)
  case Nil
  show ?case by simp
next
  case (Cons k ks)
  have "score \<le> (if py_in (py_lower k) alow
                   then (if py_in (py_lower k) tlow then score + 20 else score) + 10
                   else (if py_in (py_lower k) tlow then score + 20 else score))"
    by simp
  also have "\<dots> \<le> keyword_loop tlow alow (k # ks) score"
    using Cons.IH by (simp add: Let_def)
  finally show ?case .
qed

lemma keyword_loop_append:
  "keyword_loop tlow alow (ks @ ks') score = keyword_loop tlow alow ks' (keyword_loop tlow alow ks score)"
  by (induction ks arbitrary: score) (simp_all add: Let_def)

lemma recency_bonus_ge: "score \<le> recency_bonus days_since p score"
  by (simp add: recency_bonus_def split: option.split)

lemma recency_bonus_mono:
  "a \<le> b \<Longrightarrow> recency_bonus days_since p a \<le> recency_bonus days_since p b"
  by (simp add: recency_bonus_def split: option.split)

subsection \<open>The claims\<close>

text \<open>
  C4. For a paper that has a title and an abstract, and for every list of keywords,
  \<^verbatim>\<open>calculate_relevance_score\<close> returns a score, and the score lies between 0 and 100.
\<close>

theorem score_in_range:
  assumes "p ''title'' = Some title" and "p ''abstract'' = Some abstract"
  shows "\<exists>score. calculate_relevance_score days_since p user_keywords = Inr score
                 \<and> 0 \<le> score \<and> score \<le> 100"
proof -
  let ?k = "keyword_loop (py_lower title) (py_lower abstract) user_keywords 0"
  have "0 \<le> ?k" by (rule keyword_loop_ge)
  also have "?k \<le> recency_bonus days_since p ?k" by (rule recency_bonus_ge)
  finally have "0 \<le> min (recency_bonus days_since p ?k) 100" by simp
  then show ?thesis
    using assms by (simp add: calculate_relevance_score_def)
qed

theorem score_in_range_witness:
  "calculate_relevance_score (\<lambda>d. Some 3)
     [''title'' \<mapsto> ''Quantum Entanglement'',
      ''abstract'' \<mapsto> ''We study quantum entanglement in spin chains'',
      ''published'' \<mapsto> ''2024-01-01T00:00:00Z'']
     [''Quantum'', ''ENTANGLEMENT''] = Inr 75
   \<and> (0::real) \<le> 75 \<and> (75::real) \<le> 100"
proof -
  let ?p = "[''title'' \<mapsto> ''Quantum Entanglement'',
      ''abstract'' \<mapsto> ''We study quantum entanglement in spin chains'',
      ''published'' \<mapsto> ''2024-01-01T00:00:00Z'']"
  have t: "?p ''title'' = Some ''Quantum Entanglement''" by simp
  have a: "?p ''abstract'' = Some ''We study quantum entanglement in spin chains''" by simp
  have v: "calculate_relevance_score (\<lambda>d. Some 3) ?p [''Quantum'', ''ENTANGLEMENT''] = Inr 75"
    by (simp add: calculate_relevance_score_def recency_bonus_def py_lower_def)
  from score_in_range [OF t a, of "\<lambda>d. Some 3" "[''Quantum'', ''ENTANGLEMENT'']"] v
  show ?thesis by simp
qed

text \<open>
  C9. The score is monotone in the keyword list: when the score of a paper for the
  keywords \<^verbatim>\<open>K\<close> is \<^verbatim>\<open>s\<close>, the score of the same paper at the same time for
  \<^verbatim>\<open>K\<close> followed by one more keyword exists and is at least \<^verbatim>\<open>s\<close>.
\<close>

theorem score_monotone_in_keywords:
  assumes "calculate_relevance_score days_since p K = Inr s"
  shows "\<exists>s'. calculate_relevance_score days_since p (K @ [k]) = Inr s' \<and> s \<le> s'"
proof -
  from assms obtain title abstract where
    t: "p ''title'' = Some title" and a: "p ''abstract'' = Some abstract"
    by (auto simp: calculate_relevance_score_def split: option.splits)
  let ?tlow = "py_lower title" and ?alow = "py_lower abstract"
  have s: "s = min (recency_bonus days_since p (keyword_loop ?tlow ?alow K 0)) 100"
    using assms t a by (simp add: calculate_relevance_score_def)
  have "keyword_loop ?tlow ?alow K 0 \<le> keyword_loop ?tlow ?alow (K @ [k]) 0"
    unfolding keyword_loop_append by (rule keyword_loop_ge)
  then have "recency_bonus days_since p (keyword_loop ?tlow ?alow K 0)
               \<le> recency_bonus days_since p (keyword_loop ?tlow ?alow (K @ [k]) 0)"
    by (rule recency_bonus_mono)
  then have "s \<le> min (recency_bonus days_since p (keyword_loop ?tlow ?alow (K @ [k]) 0)) 100"
    unfolding s by simp
  then show ?thesis
    using t a by (simp add: calculate_relevance_score_def)
qed

theorem score_monotone_in_keywords_witness:
  "calculate_relevance_score (\<lambda>d. None)
     [''title'' \<mapsto> ''Quantum Error Correction'', ''abstract'' \<mapsto> ''Surface codes'']
     [''quantum''] = Inr 20
   \<and> calculate_relevance_score (\<lambda>d. None)
     [''title'' \<mapsto> ''Quantum Error Correction'', ''abstract'' \<mapsto> ''Surface codes'']
     ([''quantum''] @ [''codes'']) = Inr 30"
proof -
  let ?p = "[''title'' \<mapsto> ''Quantum Error Correction'', ''abstract'' \<mapsto> ''Surface codes'']"
  have v: "calculate_relevance_score (\<lambda>d. None) ?p [''quantum''] = Inr 20"
    by (simp add: calculate_relevance_score_def recency_bonus_def py_lower_def)
  have w: "calculate_relevance_score (\<lambda>d. None) ?p ([''quantum''] @ [''codes'']) = Inr 30"
    by (simp add: calculate_relevance_score_def recency_bonus_def py_lower_def)
  from score_monotone_in_keywords [OF v, of "''codes''"] v w show ?thesis by simp
qed

text \<open>
  C10. Every occurrence of a keyword counts: a paper whose title and abstract both
  contain \<^verbatim>\<open>quantum\<close> scores 60 for the keyword given twice and 30 for the list
  without the duplicate, so the score is not invariant under duplicate removal.
\<close>

theorem score_counts_duplicates:
  "calculate_relevance_score (\<lambda>d. None)
     [''title'' \<mapsto> ''Quantum Gates'', ''abstract'' \<mapsto> ''Fast quantum gates'']
     [''quantum'', ''quantum''] = Inr 60
   \<and> calculate_relevance_score (\<lambda>d. None)
     [''title'' \<mapsto> ''Quantum Gates'', ''abstract'' \<mapsto> ''Fast quantum gates'']
     (remdups [''quantum'', ''quantum'']) = Inr 30
   \<and> (\<exists>days_since p ks. \<not> distinct ks
         \<and> calculate_relevance_score days_since p ks
             \<noteq> calculate_relevance_score days_since p (remdups ks))"
proof -
  let ?p = "[''title'' \<mapsto> ''Quantum Gates'', ''abstract'' \<mapsto> ''Fast quantum gates'']"
  have v: "calculate_relevance_score (\<lambda>d. None) ?p [''quantum'', ''quantum''] = Inr 60"
    by (simp add: calculate_relevance_score_def recency_bonus_def py_lower_def)
  have w: "calculate_relevance_score (\<lambda>d. None) ?p (remdups [''quantum'', ''quantum'']) = Inr 30"
    by (simp add: calculate_relevance_score_def recency_bonus_def py_lower_def)
  have "\<not> distinct [''quantum'', ''quantum'']
        \<and> calculate_relevance_score (\<lambda>d. None) ?p [''quantum'', ''quantum'']
            \<noteq> calculate_relevance_score (\<lambda>d. None) ?p (remdups [''quantum'', ''quantum''])"
    unfolding v w by simp
  then have "\<exists>days_since p ks. \<not> distinct ks
         \<and> calculate_relevance_score days_since p ks
             \<noteq> calculate_relevance_score days_since p (remdups ks)"
    by blast
  with v w show ?thesis by blast
qed

section \<open>Properties of the equation extractor\<close>

subsection \<open>Helper facts\<close>

lemma collect_concat:
  "collect ps s equations = equations @ concat (map (\<lambda>pattern. stripped_matches pattern s) ps)"
  by (induction ps arbitrary: equations) simp_all

lemma set_dedup_first_seen [simp]: "set (dedup_first_seen xs) = set xs"
  by (induction xs rule: dedup_first_seen.induct) auto

lemma distinct_dedup_first_seen [simp]: "distinct (dedup_first_seen xs)"
  by (induction xs rule: dedup_first_seen.induct) simp_all

lemma unique_loop_spec:
  "unique_loop eqs (set unique) unique
     = unique @ dedup_first_seen (filter (\<lambda>e. e \<notin> set unique) eqs)"
proof (induction eqs arbitrary: unique)
  case Nil
  show ?case by simp
next
  case (Cons eq eqs)
  show ?case
  proof (cases "eq \<in> set unique")
    case True
    then show ?thesis using Cons.IH [of unique] by simp
  next
    case False
    have f: "filter (\<lambda>e. e \<notin> set (unique @ [eq])) eqs
               = filter (\<lambda>y. y \<noteq> eq) (filter (\<lambda>e. e \<notin> set unique) eqs)"
      by (induction eqs) auto
    have "unique_loop (eq # eqs) (set unique) unique
            = unique_loop eqs (set (unique @ [eq])) (unique @ [eq])"
      using False by simp
    also have "\<dots> = (unique @ [eq])
                 @ dedup_first_seen (filter (\<lambda>e. e \<notin> set (unique @ [eq])) eqs)"
      by (rule Cons.IH)
    also have "\<dots> = unique @ eq # dedup_first_seen
                 (filter (\<lambda>y. y \<noteq> eq) (filter (\<lambda>e. e \<notin> set unique) eqs))"
      by (simp only: f append_assoc append_Cons append_Nil)
    also have "\<dots> = unique @ dedup_first_seen (filter (\<lambda>e. e \<notin> set unique) (eq # eqs))"
      using False by (simp del: filter_filter)
    finally show ?thesis .
  qed
qed

lemma unique_loop_dedup: "unique_loop eqs {} [] = dedup_first_seen eqs"
  using unique_loop_spec [of eqs "[]"] by simp

subsection \<open>The claims\<close>

text \<open>
  C5. On the text with one display block and one inline block the result is the
  display match followed by the inline match, without duplicates. The display pattern
  contributes the first, the inline pattern (whose two matches inside the display
  delimiters are empty and dropped) the second; in general the candidates are the
  stripped matches of the patterns, concatenated in the order of \<^verbatim>\<open>patterns\<close>, which
  starts with the display and the inline pattern.
\<close>

theorem extract_display_then_inline:
  "extract_latex_equations ''$$a=b$$ and $c=d$'' = [''a=b'', ''c=d'']
   \<and> stripped_matches (''$$'', ''$$'') ''$$a=b$$ and $c=d$'' = [''a=b'']
   \<and> stripped_matches (''$'', ''$'') ''$$a=b$$ and $c=d$'' = [''c=d'']
   \<and> distinct (extract_latex_equations ''$$a=b$$ and $c=d$'')
   \<and> collect patterns s [] = concat (map (\<lambda>pattern. stripped_matches pattern s) patterns)
   \<and> take 2 patterns = [(''$$'', ''$$''), (''$'', ''$'')]"
proof -
  have e: "extract_latex_equations ''$$a=b$$ and $c=d$'' = [''a=b'', ''c=d'']"
    by (simp add: extract_latex_equations_def patterns_def stripped_matches_def py_strip_def
          is_space_def findall_delimited.simps)
  have d: "stripped_matches (''$$'', ''$$'') ''$$a=b$$ and $c=d$'' = [''a=b'']"
    by (simp add: stripped_matches_def py_strip_def is_space_def findall_delimited.simps)
  have i: "stripped_matches (''$'', ''$'') ''$$a=b$$ and $c=d$'' = [''c=d'']"
    by (simp add: stripped_matches_def py_strip_def is_space_def findall_delimited.simps)
  have c: "collect patterns s [] = concat (map (\<lambda>pattern. stripped_matches pattern s) patterns)"
    by (simp add: collect_concat)
  have p: "take 2 patterns = [(''$$'', ''$$''), (''$'', ''$'')]"
    by (simp add: patterns_def)
  show ?thesis unfolding e using d i c p by simp
qed

text \<open>
  C6. For every text the result has no duplicates, and it is the list of candidates
  with every value kept at its first occurrence only; so it has the same values as the
  candidates. On \<^verbatim>\<open>$x$ $x$\<close> the result is the single equation \<^verbatim>\<open>x\<close>.
\<close>

theorem extract_no_duplicates:
  "distinct (extract_latex_equations s)
   \<and> extract_latex_equations s = dedup_first_seen (collect patterns s [])
   \<and> set (extract_latex_equations s) = set (collect patterns s [])
   \<and> extract_latex_equations ''$x$ $x$'' = [''x'']"
proof -
  have g: "extract_latex_equations s = dedup_first_seen (collect patterns s [])"
    by (simp add: extract_latex_equations_def unique_loop_dedup)
  have x: "extract_latex_equations ''$x$ $x$'' = [''x'']"
    by (simp add: extract_latex_equations_def patterns_def stripped_matches_def py_strip_def
          is_space_def findall_delimited.simps)
  show ?thesis unfolding g using x [unfolded g] by simp
qed

section \<open>Properties of the performance rating\<close>

text \<open>
  C8. With a missing average time read as 999 and a missing success rate read as 0,
  the speed rating is Excellent below 5, Good below 15, Acceptable below 30 and Needs
  Improvement from 30 on; the reliability rating is Excellent from 95 on, Good from 85
  on, Acceptable from 70 on and Needs Improvement below 70; there are no other ratings.
  An average time of 3 with a success rate of 96 rates Excellent twice.
\<close>

theorem evaluate_performance_thresholds:
  assumes "avg_time = (case metrics ''average_processing_time_seconds'' of
                         None \<Rightarrow> 999 | Some v \<Rightarrow> v)"
    and "success_rate = (case metrics ''success_rate_percent'' of None \<Rightarrow> 0 | Some v \<Rightarrow> v)"
  shows "(avg_time < 5 \<longrightarrow> evaluate_performance metrics ''speed'' = Some ''Excellent'')
    \<and> (5 \<le> avg_time \<and> avg_time < 15 \<longrightarrow>
          evaluate_performance metrics ''speed'' = Some ''Good'')
    \<and> (15 \<le> avg_time \<and> avg_time < 30 \<longrightarrow>
          evaluate_performance metrics ''speed'' = Some ''Acceptable'')
    \<and> (30 \<le> avg_time \<longrightarrow>
          evaluate_performance metrics ''speed'' = Some ''Needs Improvement'')
    \<and> (95 \<le> success_rate \<longrightarrow>
          evaluate_performance metrics ''reliability'' = Some ''Excellent'')
    \<and> (85 \<le> success_rate \<and> success_rate < 95 \<longrightarrow>
          evaluate_performance metrics ''reliability'' = Some ''Good'')
    \<and> (70 \<le> success_rate \<and> success_rate < 85 \<longrightarrow>
          evaluate_performance metrics ''reliability'' = Some ''Acceptable'')
    \<and> (success_rate < 70 \<longrightarrow>
          evaluate_performance metrics ''reliability'' = Some ''Needs Improvement'')
    \<and> dom (evaluate_performance metrics) = {''speed'', ''reliability''}
    \<and> evaluate_performance
         [''average_processing_time_seconds'' \<mapsto> 3, ''success_rate_percent'' \<mapsto> 96]
        = [''speed'' \<mapsto> ''Excellent'', ''reliability'' \<mapsto> ''Excellent'']"
proof -
  have sp: "evaluate_performance metrics ''speed'' =
              Some (if avg_time < 5 then ''Excellent''
                    else if avg_time < 15 then ''Good''
                    else if avg_time < 30 then ''Acceptable''
                    else ''Needs Improvement'')"
    unfolding assms(1) by (simp add: evaluate_performance_def Let_def)
  have re: "evaluate_performance metrics ''reliability'' =
              Some (if success_rate \<ge> 95 then ''Excellent''
                    else if success_rate \<ge> 85 then ''Good''
                    else if success_rate \<ge> 70 then ''Acceptable''
                    else ''Needs Improvement'')"
    unfolding assms(2) by (simp add: evaluate_performance_def Let_def)
  have dm: "dom (evaluate_performance metrics) = {''speed'', ''reliability''}"
    by (auto simp: evaluate_performance_def Let_def)
  have ex: "evaluate_performance
         [''average_processing_time_seconds'' \<mapsto> 3, ''success_rate_percent'' \<mapsto> 96]
        = [''speed'' \<mapsto> ''Excellent'', ''reliability'' \<mapsto> ''Excellent'']"
    by (simp add: evaluate_performance_def Let_def)
  show ?thesis unfolding sp re using dm ex by simp
qed

theorem evaluate_performance_thresholds_witness:
  "evaluate_performance [''average_processing_time_seconds'' \<mapsto> 10] ''speed'' = Some ''Good''
   \<and> evaluate_performance [''average_processing_time_seconds'' \<mapsto> 10] ''reliability''
       = Some ''Needs Improvement''"
proof -
  have a: "(10::real) = (case [''average_processing_time_seconds'' \<mapsto> 10::real]
                                ''average_processing_time_seconds'' of
                           None \<Rightarrow> 999 | Some v \<Rightarrow> v)" by simp
  have b: "(0::real) = (case [''average_processing_time_seconds'' \<mapsto> 10::real]
                               ''success_rate_percent'' of
                          None \<Rightarrow> 0 | Some v \<Rightarrow> v)" by simp
  have c: "(5::real) \<le> 10 \<and> (10::real) < 15" and d: "(0::real) < 70" by simp_all
  from evaluate_performance_thresholds
         [where metrics = "[''average_processing_time_seconds'' \<mapsto> 10]", OF a b] c d
  show ?thesis by blast
qed

end
